theory Spec2Isabelle
  imports Main "HOL-Library.AList"
begin

section \<open>JavaScript values\<close>

text \<open>
  The functions of \<^verbatim>\<open>errors.ts\<close> take \<^verbatim>\<open>unknown\<close>: any JavaScript value. A value is
  undefined, null, a primitive, an array, or an object. An object carries the names of
  the classes on its prototype chain (most derived first) and the data properties that
  are visible on it, own or inherited, as an association list (the first entry for a
  key is the one that is read). Function-valued properties are not part of the model;
  numbers are only carried around, never computed with, so integers stand for them.
  Strings are lists of characters.
\<close>

datatype jsval =
    JUndefined
  | JNull
  | JBool bool
  | JNum int
  | JStr string
  | JArr "jsval list"
  | JObj "string list" "(string \<times> jsval) list"

text \<open>What a JavaScript operation can throw here.\<close>

datatype error = TypeError | Error string

definition bind_err :: "error + 'a \<Rightarrow> ('a \<Rightarrow> error + 'b) \<Rightarrow> error + 'b" where
  "bind_err m f = (case m of Inl e \<Rightarrow> Inl e | Inr x \<Rightarrow> f x)"

fun typeof :: "jsval \<Rightarrow> string" where
  "typeof JUndefined = ''undefined''"
| "typeof JNull = ''object''"
| "typeof (JBool b) = ''boolean''"
| "typeof (JNum n) = ''number''"
| "typeof (JStr s) = ''string''"
| "typeof (JArr xs) = ''object''"
| "typeof (JObj cs fs) = ''object''"

text \<open>\<^verbatim>\<open>v == null\<close>, which is also what \<^verbatim>\<open>v == undefined\<close> tests.\<close>

fun nullish :: "jsval \<Rightarrow> bool" where
  "nullish JUndefined = True"
| "nullish JNull = True"
| "nullish v = False"

text \<open>ToBoolean, as \<^verbatim>\<open>Array.prototype.some\<close> applies it to its callback's result.\<close>

fun truthy :: "jsval \<Rightarrow> bool" where
  "truthy JUndefined = False"
| "truthy JNull = False"
| "truthy (JBool b) = b"
| "truthy (JNum n) = (n \<noteq> 0)"
| "truthy (JStr s) = (s \<noteq> [])"
| "truthy (JArr xs) = True"
| "truthy (JObj cs fs) = True"

text \<open>
  \<^verbatim>\<open>v.k\<close>: a TypeError on undefined and null, the property's value on an object, and
  undefined where the property is missing. None of the keys read in this program
  (\<^verbatim>\<open>name\<close>, \<^verbatim>\<open>message\<close>, \<^verbatim>\<open>stack\<close>, \<^verbatim>\<open>transactionCode\<close>, \<^verbatim>\<open>errors\<close>, \<^verbatim>\<open>endorsements\<close>,
  \<^verbatim>\<open>details\<close>) is a property of a primitive or of an array.
\<close>

fun getProp :: "jsval \<Rightarrow> string \<Rightarrow> error + jsval" where
  "getProp JUndefined k = Inl TypeError"
| "getProp JNull k = Inl TypeError"
| "getProp (JObj cs fs) k = Inr (case map_of fs k of Some v \<Rightarrow> v | None \<Rightarrow> JUndefined)"
| "getProp v k = Inr JUndefined"

text \<open>\<^verbatim>\<open>v?.k\<close>: undefined on undefined and null, \<^verbatim>\<open>v.k\<close> otherwise.\<close>

definition optProp :: "jsval \<Rightarrow> string \<Rightarrow> error + jsval" where
  "optProp v k = (if nullish v then Inr JUndefined else getProp v k)"

text \<open>
  \<^verbatim>\<open>xs.some(f)\<close> on an array: the callback runs on the elements in order until one
  result is truthy; what the callback throws, \<^verbatim>\<open>some\<close> throws.
\<close>

fun array_some :: "(jsval \<Rightarrow> error + jsval) \<Rightarrow> jsval list \<Rightarrow> error + jsval" where
  "array_some f [] = Inr (JBool False)"
| "array_some f (x # xs) =
     bind_err (f x) (\<lambda>r. if truthy r then Inr (JBool True) else array_some f xs)"

text \<open>
  \<^verbatim>\<open>v?.some(f)\<close>: undefined when \<^verbatim>\<open>v\<close> is undefined or null; on any other value that is
  not an array, \<^verbatim>\<open>v.some\<close> is undefined and the call throws a TypeError.
\<close>

fun optSome :: "jsval \<Rightarrow> (jsval \<Rightarrow> error + jsval) \<Rightarrow> error + jsval" where
  "optSome JUndefined f = Inr JUndefined"
| "optSome JNull f = Inr JUndefined"
| "optSome (JArr xs) f = array_some f xs"
| "optSome v f = Inl TypeError"

fun startsWith :: "string \<Rightarrow> string \<Rightarrow> bool" where
  "startsWith s [] = True"
| "startsWith [] (p # ps) = False"
| "startsWith (c # cs) (p # ps) = (c = p \<and> startsWith cs ps)"

text \<open>
  \<^verbatim>\<open>v?.startsWith(p)\<close>: undefined when \<^verbatim>\<open>v\<close> is undefined or null, the test on a string,
  and a TypeError on any other value (\<^verbatim>\<open>v.startsWith\<close> is undefined there).
\<close>

fun optStartsWith :: "jsval \<Rightarrow> string \<Rightarrow> error + jsval" where
  "optStartsWith JUndefined p = Inr JUndefined"
| "optStartsWith JNull p = Inr JUndefined"
| "optStartsWith (JStr s) p = Inr (JBool (startsWith s p))"
| "optStartsWith v p = Inl TypeError"

text \<open>\<^verbatim>\<open>v instanceof C\<close>: the class is on the prototype chain of the object.\<close>

fun instanceof :: "jsval \<Rightarrow> string \<Rightarrow> bool" where
  "instanceof (JObj cs fs) c = (c \<in> set cs)"
| "instanceof v c = False"

section \<open>The error classes of errors.ts\<close>

text \<open>
  \<^verbatim>\<open>new Error(message)\<close>. The stack trace the engine attaches is left out: its text is
  the engine's, and no function below reads it from an error built here.
\<close>

definition Error_new :: "string \<Rightarrow> jsval" where
  "Error_new message =
     JObj [''Error'', ''Object''] [(''name'', JStr ''Error''), (''message'', JStr message)]"

fun setPrototypeOf :: "jsval \<Rightarrow> string list \<Rightarrow> jsval" where
  "setPrototypeOf (JObj cs fs) cs' = JObj cs' fs"
| "setPrototypeOf v cs' = v"

fun setProp :: "jsval \<Rightarrow> string \<Rightarrow> jsval \<Rightarrow> jsval" where
  "setProp (JObj cs fs) k v = JObj cs (AList.update k v fs)"
| "setProp w k v = w"

definition ContractError_chain :: "string list" where
  "ContractError_chain = [''ContractError'', ''Error'', ''Object'']"

definition ContractError_new :: "string \<Rightarrow> string \<Rightarrow> jsval" where
  "ContractError_new message transactionId =
     setProp
       (setProp (setPrototypeOf (Error_new message) ContractError_chain)
          ''name'' (JStr ''TransactionError''))
       ''transactionId'' (JStr transactionId)"

definition TransactionNotFoundError_new :: "string \<Rightarrow> string \<Rightarrow> jsval" where
  "TransactionNotFoundError_new message transactionId =
     setProp
       (setPrototypeOf (ContractError_new message transactionId)
          (''TransactionNotFoundError'' # ContractError_chain))
       ''name'' (JStr ''TransactionNotFoundError'')"

definition SymptomExistsError_new :: "string \<Rightarrow> string \<Rightarrow> jsval" where
  "SymptomExistsError_new message transactionId =
     setProp
       (setPrototypeOf (ContractError_new message transactionId)
          (''SymptomExistsError'' # ContractError_chain))
       ''name'' (JStr ''SymptomExistsError'')"

definition SymptomNotFoundError_new :: "string \<Rightarrow> string \<Rightarrow> jsval" where
  "SymptomNotFoundError_new message transactionId =
     setProp
       (setPrototypeOf (ContractError_new message transactionId)
          (''SymptomNotFoundError'' # ContractError_chain))
       ''name'' (JStr ''SymptomNotFoundError'')"

section \<open>The retry policy\<close>

datatype RetryAction = WithExistingTransactionId | WithNewTransactionId | RetryAction_None

text \<open>
  \<^verbatim>\<open>isDuplicateTransactionError\<close>. When \<^verbatim>\<open>transactionCode\<close> is a string, it alone decides.
  Otherwise the nested \<^verbatim>\<open>errors[].endorsements[].details\<close> are scanned through optional
  chaining, and the result is true only if the scan returned \<^verbatim>\<open>true\<close>.
\<close>

definition isDuplicateTransactionError :: "jsval \<Rightarrow> error + bool" where
  "isDuplicateTransactionError err =
     (if err = JUndefined \<or> err = JNull then Inr False
      else bind_err (getProp err ''transactionCode'') (\<lambda>transactionCode.
        if typeof transactionCode = ''string''
        then Inr (transactionCode = JStr ''DUPLICATE_TXID'')
        else bind_err
          (bind_err (optProp err ''errors'') (\<lambda>errors.
             optSome errors (\<lambda>err.
               bind_err (optProp err ''endorsements'') (\<lambda>endorsements.
                 optSome endorsements (\<lambda>endorsement.
                   bind_err (optProp endorsement ''details'') (\<lambda>details.
                     optStartsWith details ''duplicate transaction found''))))))
          (\<lambda>isDuplicate. Inr (isDuplicate = JBool True))))"

definition getRetryAction :: "jsval \<Rightarrow> error + RetryAction" where
  "getRetryAction err =
     bind_err (isDuplicateTransactionError err) (\<lambda>duplicate.
       if duplicate \<or> instanceof err ''ContractError'' then Inr RetryAction_None
       else if instanceof err ''TimeoutError'' then Inr WithExistingTransactionId
       else Inr WithNewTransactionId)"

text \<open>\<^verbatim>\<open>isErrorLike\<close>: the conjunction is evaluated left to right and stops at the first false.\<close>

definition isErrorLike :: "jsval \<Rightarrow> error + bool" where
  "isErrorLike err =
     (if nullish err then Inr False
      else bind_err (getProp err ''name'') (\<lambda>name.
        if typeof name \<noteq> ''string'' then Inr False
        else bind_err (getProp err ''message'') (\<lambda>message.
          if typeof message \<noteq> ''string'' then Inr False
          else bind_err (getProp err ''stack'') (\<lambda>stack.
            Inr (stack = JUndefined \<or> typeof stack = ''string'')))))"

section \<open>Regular expressions\<close>

text \<open>
  The fragment of JavaScript regular expressions that the three patterns of
  \<^verbatim>\<open>errors.ts\<close> use: literal text, a character class, a greedy star over a character
  class, an optional group, sequence and alternation. Matching is the backtracking
  search of the language: a continuation stands for the rest of the pattern, the
  optional group and the star try the longer match first, an alternation its left
  branch first.
\<close>

datatype cclass = OneOf "char list" | NoneOf "char list" | WordChar

datatype regex =
    Lit string
  | Cls cclass
  | Star cclass
  | Opt regex
  | Seq regex regex
  | Alt regex regex

text \<open>\<^verbatim>\<open>\w\<close> is \<^verbatim>\<open>[A-Za-z0-9_]\<close>.\<close>

definition isWordChar :: "char \<Rightarrow> bool" where
  "isWordChar c =
     (let n = (of_char c :: nat)
      in (97 \<le> n \<and> n \<le> 122) \<or> (65 \<le> n \<and> n \<le> 90) \<or> (48 \<le> n \<and> n \<le> 57) \<or> n = 95)"

fun inClass :: "cclass \<Rightarrow> char \<Rightarrow> bool" where
  "inClass (OneOf cs) c = (c \<in> set cs)"
| "inClass (NoneOf cs) c = (c \<notin> set cs)"
| "inClass WordChar c = isWordChar c"

fun stripLit :: "string \<Rightarrow> string \<Rightarrow> string option" where
  "stripLit [] s = Some s"
| "stripLit (p # ps) [] = None"
| "stripLit (p # ps) (c # cs) = (if p = c then stripLit ps cs else None)"

fun starBT :: "(char \<Rightarrow> bool) \<Rightarrow> (string \<Rightarrow> 'a option) \<Rightarrow> string \<Rightarrow> 'a option" where
  "starBT P k [] = k []"
| "starBT P k (c # cs) =
     (if P c
      then (case starBT P k cs of Some r \<Rightarrow> Some r | None \<Rightarrow> k (c # cs))
      else k (c # cs))"

fun rmatch :: "regex \<Rightarrow> (string \<Rightarrow> 'a option) \<Rightarrow> string \<Rightarrow> 'a option" where
  "rmatch (Lit p) k s = (case stripLit p s of Some rest \<Rightarrow> k rest | None \<Rightarrow> None)"
| "rmatch (Cls cl) k s =
     (case s of [] \<Rightarrow> None | c # cs \<Rightarrow> if inClass cl c then k cs else None)"
| "rmatch (Star cl) k s = starBT (inClass cl) k s"
| "rmatch (Opt r) k s = (case rmatch r k s of Some x \<Rightarrow> Some x | None \<Rightarrow> k s)"
| "rmatch (Seq r1 r2) k s = rmatch r1 (rmatch r2 k) s"
| "rmatch (Alt r1 r2) k s = (case rmatch r1 k s of Some x \<Rightarrow> Some x | None \<Rightarrow> rmatch r2 k s)"

text \<open>A match that starts at the head of the input; the result is the input left over.\<close>

definition matchAt :: "regex \<Rightarrow> string \<Rightarrow> string option" where
  "matchAt r s = rmatch r Some s"

text \<open>
  \<^verbatim>\<open>message.match(r)\<close> with the \<^verbatim>\<open>g\<close> flag returns every match, or null when there is
  none; the callers read element 0, the leftmost match. \<open>firstMatch\<close> is that element.
\<close>

fun firstMatch :: "regex \<Rightarrow> string \<Rightarrow> string option" where
  "firstMatch r [] = (case matchAt r [] of Some rest \<Rightarrow> Some [] | None \<Rightarrow> None)"
| "firstMatch r (c # cs) =
     (case matchAt r (c # cs) of
        Some rest \<Rightarrow> Some (take (length (c # cs) - length rest) (c # cs))
      | None \<Rightarrow> firstMatch r cs)"

section \<open>The classifier\<close>

text \<open>\<^verbatim>\<open>/([tT]he )?[aA]sset \w* already exists/g\<close>\<close>

definition symptomAlreadyExistsRegex :: regex where
  "symptomAlreadyExistsRegex =
     Seq (Opt (Seq (Cls (OneOf ''tT'')) (Lit ''he '')))
       (Seq (Cls (OneOf ''aA''))
         (Seq (Lit ''sset '') (Seq (Star WordChar) (Lit '' already exists''))))"

definition matchSymptomAlreadyExistsMessage :: "string \<Rightarrow> string option" where
  "matchSymptomAlreadyExistsMessage message = firstMatch symptomAlreadyExistsRegex message"

text \<open>\<^verbatim>\<open>/([tT]he )?[aA]sset \w* does not exist/g\<close>\<close>

definition symptomDoesNotExistRegex :: regex where
  "symptomDoesNotExistRegex =
     Seq (Opt (Seq (Cls (OneOf ''tT'')) (Lit ''he '')))
       (Seq (Cls (OneOf ''aA''))
         (Seq (Lit ''sset '') (Seq (Star WordChar) (Lit '' does not exist''))))"

definition matchSymptomDoesNotExistMessage :: "string \<Rightarrow> string option" where
  "matchSymptomDoesNotExistMessage message = firstMatch symptomDoesNotExistRegex message"

text \<open>
  The pattern of \<^verbatim>\<open>matchTransactionDoesNotExistMessage\<close>, with the \<^verbatim>\<open>g\<close> flag:
  \<^verbatim>\<open>Failed to get transaction with id \<close>, a run of characters other than a comma,
  \<^verbatim>\<open>, error \<close>, then either \<^verbatim>\<open>Entry not found\<close> or \<^verbatim>\<open>no such transaction ID \<close> with a
  bracketed run of characters other than a closing bracket, then \<^verbatim>\<open> in index\<close>.
\<close>

definition transactionDoesNotExistRegex :: regex where
  "transactionDoesNotExistRegex =
     Seq (Lit ''Failed to get transaction with id '')
       (Seq (Star (NoneOf '',''))
         (Seq (Lit '', error '')
           (Seq (Alt (Lit ''Entry not found'')
                   (Seq (Lit ''no such transaction ID ['')
                      (Seq (Star (NoneOf '']'')) (Lit '']''))))
              (Lit '' in index''))))"

definition matchTransactionDoesNotExistMessage :: "string \<Rightarrow> string option" where
  "matchTransactionDoesNotExistMessage message =
     firstMatch transactionDoesNotExistRegex message"

text \<open>
  \<^verbatim>\<open>handleError\<close>. After \<^verbatim>\<open>isErrorLike\<close> the message is a string; the three patterns are
  tried in the order of the source, and the input itself is returned when none matches
  or the input is not error-like.
\<close>

definition handleError :: "string \<Rightarrow> jsval \<Rightarrow> error + jsval" where
  "handleError transactionId err =
     bind_err (isErrorLike err) (\<lambda>errorLike.
       if errorLike
       then bind_err (getProp err ''message'') (\<lambda>m.
         case m of
           JStr message \<Rightarrow>
             (case matchSymptomAlreadyExistsMessage message of
                Some symptomAlreadyExistsMatch \<Rightarrow>
                  Inr (SymptomExistsError_new symptomAlreadyExistsMatch transactionId)
              | None \<Rightarrow>
                (case matchSymptomDoesNotExistMessage message of
                   Some symptomDoesNotExistMatch \<Rightarrow>
                     Inr (SymptomNotFoundError_new symptomDoesNotExistMatch transactionId)
                 | None \<Rightarrow>
                   (case matchTransactionDoesNotExistMessage message of
                      Some transactionDoesNotExistMatch \<Rightarrow>
                        Inr (TransactionNotFoundError_new transactionDoesNotExistMatch
                               transactionId)
                    | None \<Rightarrow> Inr err)))
         | _ \<Rightarrow> Inr err)
       else Inr err)"

section \<open>The chaincode\<close>

text \<open>
  \<^verbatim>\<open>symptomTransfer.ts\<close> reads and writes the world state through the stub of the
  contract API, which is the platform's: the world state is a map from keys to stored
  text, \<^verbatim>\<open>getState\<close> gives the empty buffer for a key that is not there, \<^verbatim>\<open>putState\<close>
  writes and \<^verbatim>\<open>deleteState\<close> removes. A buffer is the text it holds. The serialiser
  \<^verbatim>\<open>JSON.stringify\<close> is the platform's too and is a parameter of the transactions that
  call it.
\<close>

type_synonym worldState = "string \<rightharpoonup> string"

definition getState :: "worldState \<Rightarrow> string \<Rightarrow> string" where
  "getState st key = (case st key of Some v \<Rightarrow> v | None \<Rightarrow> [])"

definition putState :: "worldState \<Rightarrow> string \<Rightarrow> string \<Rightarrow> worldState" where
  "putState st key v = st(key \<mapsto> v)"


definition Symptom_object :: "string \<Rightarrow> string \<Rightarrow> string \<Rightarrow> int \<Rightarrow> jsval" where
  "Symptom_object id' comment owner symptomTimestamp =
     JObj [''Object'']
       [(''ID'', JStr id'), (''Comment'', JStr comment), (''Owner'', JStr owner),
        (''SymptomTimestamp'', JNum symptomTimestamp)]"

definition CreateSymptom ::
  "(jsval \<Rightarrow> string) \<Rightarrow> worldState \<Rightarrow> string \<Rightarrow> string \<Rightarrow> string \<Rightarrow> int \<Rightarrow> error + worldState" where
  "CreateSymptom JSON_stringify st id' comment owner symptomTimestamp =
     (let symptom = Symptom_object id' comment owner symptomTimestamp
      in Inr (putState st id' (JSON_stringify symptom)))"


definition SymptomExists :: "worldState \<Rightarrow> string \<Rightarrow> bool" where
  "SymptomExists st id' = (let symptomJSON = getState st id' in length symptomJSON > 0)"



text \<open>
  A serialiser to run the transactions on a concrete world state: the visible
  properties of an object in order, each as \<^verbatim>\<open>key=value;\<close>, a string as it is and a
  number in decimal. It is used in worked examples only; what is proved of the
  transactions is proved for every serialiser.
\<close>

fun digitsOf :: "nat \<Rightarrow> string" where
  "digitsOf n =
     (if n < 10 then [''0123456789'' ! n]
      else digitsOf (n div 10) @ [''0123456789'' ! (n mod 10)])"

declare digitsOf.simps [simp del]

fun valueText :: "jsval \<Rightarrow> string" where
  "valueText (JStr s) = s"
| "valueText (JNum n) = (if n < 0 then CHR ''-'' # digitsOf (nat (- n)) else digitsOf (nat n))"
| "valueText v = []"

fun fieldsText :: "jsval \<Rightarrow> string" where
  "fieldsText (JObj cs fs) = concat (map (\<lambda>(k, v). k @ ''='' @ valueText v @ '';'') fs)"
| "fieldsText v = valueText v"

section \<open>The submission worker\<close>

datatype JobState = Pending | InProgress | Succeeded | Failed

datatype JobError = Classified jsval | RetriesExhausted | Cancelled

record Job =
  transactionIds :: "string list"
  state :: JobState
  result :: "string option"
  error :: "JobError option"
  attemptCount :: nat

text \<open>
  Modelled from the spec: the job record and the worker that processes it
  (\<^verbatim>\<open>jobs.ts\<close>) are not among the sources. A job is enqueued \<open>Pending\<close> with no attempt
  made; dequeuing it starts attempt 1 under a first transaction identity.
\<close>

definition enqueue :: Job where
  "enqueue =
     \<lparr>transactionIds = [], state = Pending, result = None, error = None, attemptCount = 0\<rparr>"

definition dequeue :: "string \<Rightarrow> Job \<Rightarrow> Job" where
  "dequeue identity job =
     job\<lparr>state := InProgress, transactionIds := [identity], attemptCount := 1\<rparr>"

text \<open>
  Modelled from the spec: what the worker does when the submit of the current attempt,
  made under \<open>transactionId\<close>, fails (section 4.4, step 4, and the attempt bound of
  sections 4.2 and 4.4), over the classifier and the retry policy of \<^verbatim>\<open>errors.ts\<close>.
  A job whose attempts are used up fails with \<open>RetriesExhausted\<close>; otherwise Stop
  records the classified error and fails the job, a retry counts one more attempt, and
  a retry under a new identity appends that identity.
\<close>

definition onSubmitFailure :: "nat \<Rightarrow> string \<Rightarrow> string \<Rightarrow> jsval \<Rightarrow> Job \<Rightarrow> error + Job" where
  "onSubmitFailure maxAttempts transactionId newIdentity rawError job =
     bind_err (handleError transactionId rawError) (\<lambda>classified.
       if attemptCount job \<ge> maxAttempts
       then Inr (job\<lparr>state := Failed, error := Some RetriesExhausted\<rparr>)
       else bind_err (getRetryAction classified) (\<lambda>action.
         case action of
           RetryAction_None \<Rightarrow>
             Inr (job\<lparr>state := Failed, error := Some (Classified classified)\<rparr>)
         | WithExistingTransactionId \<Rightarrow> Inr (job\<lparr>attemptCount := attemptCount job + 1\<rparr>)
         | WithNewTransactionId \<Rightarrow>
             Inr (job\<lparr>attemptCount := attemptCount job + 1,
                     transactionIds := transactionIds job @ [newIdentity]\<rparr>)))"

section \<open>The claims' words\<close>

text \<open>
  The property read without throwing: the value on an object, undefined elsewhere.
\<close>

fun fieldOf :: "jsval \<Rightarrow> string \<Rightarrow> jsval" where
  "fieldOf (JObj cs fs) k = (case map_of fs k of Some v \<Rightarrow> v | None \<Rightarrow> JUndefined)"
| "fieldOf v k = JUndefined"

fun elems :: "jsval \<Rightarrow> jsval list" where
  "elems (JArr xs) = xs"
| "elems v = []"

text \<open>The two duplicate-submission indicators, as the claim words them.\<close>

definition carriesDuplicateCode :: "jsval \<Rightarrow> bool" where
  "carriesDuplicateCode err = (fieldOf err ''transactionCode'' = JStr ''DUPLICATE_TXID'')"

definition detailIsDuplicate :: "jsval \<Rightarrow> bool" where
  "detailIsDuplicate endorsement =
     (case fieldOf endorsement ''details'' of
        JStr s \<Rightarrow> startsWith s ''duplicate transaction found''
      | _ \<Rightarrow> False)"

definition carriesDuplicateDetail :: "jsval \<Rightarrow> bool" where
  "carriesDuplicateDetail err =
     list_ex (\<lambda>e. list_ex detailIsDuplicate (elems (fieldOf e ''endorsements'')))
       (elems (fieldOf err ''errors''))"

text \<open>
  The shape the source's cast assumes of an endorsement failure, where the fields are
  present: \<^verbatim>\<open>errors\<close> an array, each \<^verbatim>\<open>endorsements\<close> an array, each \<^verbatim>\<open>details\<close> a string.
\<close>

fun nullishOrArray :: "jsval \<Rightarrow> bool" where
  "nullishOrArray JUndefined = True"
| "nullishOrArray JNull = True"
| "nullishOrArray (JArr xs) = True"
| "nullishOrArray v = False"

fun nullishOrString :: "jsval \<Rightarrow> bool" where
  "nullishOrString JUndefined = True"
| "nullishOrString JNull = True"
| "nullishOrString (JStr s) = True"
| "nullishOrString v = False"

definition endorsementsWellTyped :: "jsval \<Rightarrow> bool" where
  "endorsementsWellTyped err =
     (nullishOrArray (fieldOf err ''errors'') \<and>
      list_all (\<lambda>e. nullishOrArray (fieldOf e ''endorsements'') \<and>
                  list_all (\<lambda>en. nullishOrString (fieldOf en ''details''))
                    (elems (fieldOf e ''endorsements'')))
        (elems (fieldOf err ''errors'')))"

text \<open>The callback of the outer \<^verbatim>\<open>some\<close> in \<^verbatim>\<open>isDuplicateTransactionError\<close>, named.\<close>

definition endorsementsScan :: "jsval \<Rightarrow> error + jsval" where
  "endorsementsScan e =
     bind_err (optProp e ''endorsements'') (\<lambda>endorsements.
       optSome endorsements (\<lambda>endorsement.
         bind_err (optProp endorsement ''details'') (\<lambda>details.
           optStartsWith details ''duplicate transaction found'')))"

section \<open>Evaluation lemmas\<close>

lemma optProp_fieldOf: "optProp v k = Inr (fieldOf v k)"
  by (cases v) (simp_all add: optProp_def)

lemma getProp_fieldOf: "\<not> nullish v \<Longrightarrow> getProp v k = Inr (fieldOf v k)"
  by (cases v) simp_all

lemma bind_err_Inr [simp]: "bind_err (Inr x) f = f x"
  by (simp add: bind_err_def)

lemma bind_err_Inl [simp]: "bind_err (Inl e) f = Inl e"
  by (simp add: bind_err_def)

lemma isErrorLike_total: "\<exists>b. isErrorLike err = Inr b"
  by (cases "nullish err") (auto simp: isErrorLike_def getProp_fieldOf)

lemma handleError_total: "\<exists>r. handleError transactionId err = Inr r"
proof (cases "nullish err")
  case True
  then show ?thesis by (simp add: handleError_def isErrorLike_def)
next
  case False
  then show ?thesis
    by (simp add: handleError_def isErrorLike_def getProp_fieldOf
        split: jsval.split option.split)
qed

lemma array_some_eval:
  "\<forall>x \<in> set xs. \<exists>r. f x = Inr r \<and> truthy r = P x \<Longrightarrow>
   array_some f xs = Inr (JBool (list_ex P xs))"
  by (induction xs) auto

lemma details_eval:
  "nullishOrString (fieldOf en ''details'') \<Longrightarrow>
   \<exists>r. bind_err (optProp en ''details'') (\<lambda>details. optStartsWith details p) = Inr r \<and>
       truthy r = (case fieldOf en ''details'' of JStr s \<Rightarrow> startsWith s p | _ \<Rightarrow> False)"
  by (cases "fieldOf en ''details''") (simp_all add: optProp_fieldOf)

lemma endorsementsScan_eval:
  assumes "nullishOrArray (fieldOf e ''endorsements'')"
    and "list_all (\<lambda>en. nullishOrString (fieldOf en ''details''))
           (elems (fieldOf e ''endorsements''))"
  shows "\<exists>r. endorsementsScan e = Inr r \<and>
           truthy r = list_ex detailIsDuplicate (elems (fieldOf e ''endorsements''))"
proof (cases "fieldOf e ''endorsements''")
  case (JArr ens)
  with assms(2) have "\<forall>en \<in> set ens. nullishOrString (fieldOf en ''details'')"
    by (simp add: list_all_iff)
  then have "\<forall>en \<in> set ens. \<exists>r.
      bind_err (optProp en ''details'') (\<lambda>details.
        optStartsWith details ''duplicate transaction found'') = Inr r \<and>
      truthy r = detailIsDuplicate en"
    unfolding detailIsDuplicate_def by (blast dest: details_eval)
  then show ?thesis
    using JArr by (simp add: endorsementsScan_def optProp_fieldOf array_some_eval)
qed (use assms(1) in \<open>simp_all add: endorsementsScan_def optProp_fieldOf\<close>)

lemma isDuplicate_code:
  "typeof (fieldOf err ''transactionCode'') = ''string'' \<Longrightarrow>
   isDuplicateTransactionError err = Inr (carriesDuplicateCode err)"
  by (cases err) (simp_all add: isDuplicateTransactionError_def carriesDuplicateCode_def)

lemma isDuplicate_scan:
  assumes "typeof (fieldOf err ''transactionCode'') \<noteq> ''string''"
    and "endorsementsWellTyped err"
  shows "isDuplicateTransactionError err = Inr (carriesDuplicateDetail err)"
proof (cases "nullish err")
  case True
  then show ?thesis
    by (cases err) (simp_all add: isDuplicateTransactionError_def carriesDuplicateDetail_def)
next
  case False
  then have nn: "err \<noteq> JUndefined" "err \<noteq> JNull" by auto
  have unfold: "isDuplicateTransactionError err =
      bind_err (optSome (fieldOf err ''errors'') endorsementsScan)
        (\<lambda>isDuplicate. Inr (isDuplicate = JBool True))"
    using nn assms(1) False
    by (simp add: isDuplicateTransactionError_def getProp_fieldOf optProp_fieldOf
        endorsementsScan_def [abs_def])
  show ?thesis
  proof (cases "fieldOf err ''errors''")
    case (JArr es)
    with assms(2) have "\<forall>e \<in> set es. \<exists>r. endorsementsScan e = Inr r \<and>
        truthy r = list_ex detailIsDuplicate (elems (fieldOf e ''endorsements''))"
      by (auto simp: endorsementsWellTyped_def list_all_iff intro: endorsementsScan_eval)
    then have "array_some endorsementsScan es =
        Inr (JBool (list_ex (\<lambda>e. list_ex detailIsDuplicate (elems (fieldOf e ''endorsements''))) es))"
      by (rule array_some_eval)
    then show ?thesis
      using JArr by (simp add: unfold carriesDuplicateDetail_def)
  qed (use assms(2) in \<open>simp_all add: unfold carriesDuplicateDetail_def endorsementsWellTyped_def\<close>)
qed

lemma isDuplicate_returns:
  "typeof (fieldOf err ''transactionCode'') = ''string'' \<or> endorsementsWellTyped err \<Longrightarrow>
   \<exists>b. isDuplicateTransactionError err = Inr b"
  using isDuplicate_code isDuplicate_scan by blast

section \<open>The retry policy and the classifier, evaluated\<close>

lemma getRetryAction_eval:
  "isDuplicateTransactionError err = Inr d \<Longrightarrow>
   getRetryAction err =
     Inr (if d \<or> instanceof err ''ContractError'' then RetryAction_None
          else if instanceof err ''TimeoutError'' then WithExistingTransactionId
          else WithNewTransactionId)"
  by (simp add: getRetryAction_def)

lemma getRetryAction_throws:
  "isDuplicateTransactionError err = Inl e \<Longrightarrow> getRetryAction err = Inl e"
  by (simp add: getRetryAction_def)

lemma isErrorLike_True_nullish: "isErrorLike err = Inr True \<Longrightarrow> \<not> nullish err"
  by (cases "nullish err") (simp_all add: isErrorLike_def)

lemma handleError_eval:
  assumes "isErrorLike err = Inr True" and "fieldOf err ''message'' = JStr message"
  shows "handleError transactionId err =
     Inr (case matchSymptomAlreadyExistsMessage message of
            Some m \<Rightarrow> SymptomExistsError_new m transactionId
          | None \<Rightarrow>
            (case matchSymptomDoesNotExistMessage message of
               Some m \<Rightarrow> SymptomNotFoundError_new m transactionId
             | None \<Rightarrow>
               (case matchTransactionDoesNotExistMessage message of
                  Some m \<Rightarrow> TransactionNotFoundError_new m transactionId
                | None \<Rightarrow> err)))"
  using assms isErrorLike_True_nullish [OF assms(1)]
  by (simp add: handleError_def getProp_fieldOf split: option.split)

lemma handleError_not_errorLike:
  "isErrorLike err = Inr False \<Longrightarrow> handleError transactionId err = Inr err"
  by (simp add: handleError_def)

lemma isErrorLike_Error_new: "isErrorLike (Error_new message) = Inr True"
  by (simp add: isErrorLike_def Error_new_def)

lemma message_Error_new: "fieldOf (Error_new message) ''message'' = JStr message"
  by (simp add: Error_new_def)

lemma getRetryAction_SymptomExistsError:
  "getRetryAction (SymptomExistsError_new m transactionId) = Inr RetryAction_None"
  by (simp add: getRetryAction_def isDuplicateTransactionError_def optProp_def
      SymptomExistsError_new_def ContractError_new_def Error_new_def ContractError_chain_def)






section \<open>Concrete matches\<close>

lemma all_three_match:
  "matchSymptomAlreadyExistsMessage
     ''asset a1 does not exist; the asset a2 already exists; Failed to get transaction with id 7, error Entry not found in index''
     = Some ''the asset a2 already exists''"
  "matchSymptomDoesNotExistMessage
     ''asset a1 does not exist; the asset a2 already exists; Failed to get transaction with id 7, error Entry not found in index''
     = Some ''asset a1 does not exist''"
  "matchTransactionDoesNotExistMessage
     ''asset a1 does not exist; the asset a2 already exists; Failed to get transaction with id 7, error Entry not found in index''
     = Some ''Failed to get transaction with id 7, error Entry not found in index''"
  by code_simp+

lemma no_match_unavailable:
  "matchSymptomAlreadyExistsMessage ''14 UNAVAILABLE: failed to connect to all addresses'' = None"
  "matchSymptomDoesNotExistMessage ''14 UNAVAILABLE: failed to connect to all addresses'' = None"
  "matchTransactionDoesNotExistMessage ''14 UNAVAILABLE: failed to connect to all addresses'' = None"
  by code_simp+

lemma match_symptom1:
  "matchSymptomAlreadyExistsMessage ''the asset symptom1 already exists''
     = Some ''the asset symptom1 already exists''"
  by code_simp



lemma digitsOf_timestamp: "digitsOf 1700000000000 = ''1700000000000''"
  by (simp add: digitsOf.simps)

section \<open>The claims\<close>

subsection \<open>C1\<close>

text \<open>
  C1 as stated: once the attempt count has reached the maximum, the retry-policy
  decision function returns Stop whatever the error. \<^verbatim>\<open>getRetryAction\<close> takes the error
  alone; for a timeout it answers \<open>WithExistingTransactionId\<close>, also at attempt 5 of 5.
\<close>

theorem C1_counterexample:
  "(5::nat) \<ge> 5 \<and>
   getRetryAction
     (JObj [''TimeoutError'', ''FabricError'', ''Error'', ''Object'']
        [(''name'', JStr ''TimeoutError''), (''message'', JStr ''timed out'')])
   = Inr WithExistingTransactionId"
  by (simp add: getRetryAction_def isDuplicateTransactionError_def optProp_def)

text \<open>
  C1, amended: \<^verbatim>\<open>getRetryAction\<close> has no attempt count among its arguments, and it
  returns \<open>None\<close> (Stop) exactly when the error is recognised as a duplicate
  transaction, or is not and is a \<^verbatim>\<open>ContractError\<close>.
\<close>

theorem getRetryAction_None_iff:
  "getRetryAction err = Inr RetryAction_None \<longleftrightarrow>
     isDuplicateTransactionError err = Inr True \<or>
     (isDuplicateTransactionError err = Inr False \<and> instanceof err ''ContractError'')"
proof (cases "isDuplicateTransactionError err")
  case (Inl e)
  then show ?thesis by (simp add: getRetryAction_throws)
next
  case (Inr d)
  then show ?thesis by (auto simp: getRetryAction_eval)
qed

theorem getRetryAction_None_iff_witness:
  "getRetryAction (ContractError_new ''rejected'' ''tx1'') = Inr RetryAction_None \<and>
   isDuplicateTransactionError (ContractError_new ''rejected'' ''tx1'') = Inr False \<and>
   instanceof (ContractError_new ''rejected'' ''tx1'') ''ContractError''"
proof -
  have d: "isDuplicateTransactionError (ContractError_new ''rejected'' ''tx1'') = Inr False"
    by (simp add: isDuplicateTransactionError_def ContractError_new_def Error_new_def
        ContractError_chain_def optProp_def)
  have i: "instanceof (ContractError_new ''rejected'' ''tx1'') ''ContractError''"
    by (simp add: ContractError_new_def Error_new_def ContractError_chain_def)
  from d i getRetryAction_None_iff [of "ContractError_new ''rejected'' ''tx1''"]
  show ?thesis by blast
qed

subsection \<open>C2\<close>

text \<open>
  C2 as stated: every error that carries a nested endorsement detail starting with
  \<^verbatim>\<open>duplicate transaction found\<close> is answered with \<open>None\<close>. When \<^verbatim>\<open>transactionCode\<close> is a
  string other than \<^verbatim>\<open>DUPLICATE_TXID\<close>, the details are not looked at, and the error is
  retried under a new transaction identity.
\<close>

theorem C2_counterexample:
  "carriesDuplicateDetail
     (JObj [''Error'', ''Object'']
        [(''name'', JStr ''Error''), (''message'', JStr ''commit failed''),
         (''transactionCode'', JStr ''MVCC_READ_CONFLICT''),
         (''errors'', JArr [JObj [''Object'']
            [(''endorsements'', JArr [JObj [''Object'']
               [(''details'', JStr ''duplicate transaction found'')]])]])]) \<and>
   getRetryAction
     (JObj [''Error'', ''Object'']
        [(''name'', JStr ''Error''), (''message'', JStr ''commit failed''),
         (''transactionCode'', JStr ''MVCC_READ_CONFLICT''),
         (''errors'', JArr [JObj [''Object'']
            [(''endorsements'', JArr [JObj [''Object'']
               [(''details'', JStr ''duplicate transaction found'')]])]])])
   = Inr WithNewTransactionId"
  by (simp add: carriesDuplicateDetail_def detailIsDuplicate_def getRetryAction_def
      isDuplicateTransactionError_def)

text \<open>
  C2, amended: \<^verbatim>\<open>getRetryAction\<close> returns \<open>None\<close> for every error whose
  \<^verbatim>\<open>transactionCode\<close> is \<^verbatim>\<open>DUPLICATE_TXID\<close>; for every error whose \<^verbatim>\<open>transactionCode\<close> is
  not a string, whose \<^verbatim>\<open>errors\<close>, \<^verbatim>\<open>endorsements\<close> and \<^verbatim>\<open>details\<close> are arrays, arrays and
  strings where present, and one of whose details starts with
  \<^verbatim>\<open>duplicate transaction found\<close>; and for every \<^verbatim>\<open>ContractError\<close> whose \<^verbatim>\<open>transactionCode\<close>
  is a string or whose nested fields are so typed.
\<close>

theorem getRetryAction_duplicate_or_contract:
  assumes "carriesDuplicateCode err \<or>
     (typeof (fieldOf err ''transactionCode'') \<noteq> ''string'' \<and>
        endorsementsWellTyped err \<and> carriesDuplicateDetail err) \<or>
     (instanceof err ''ContractError'' \<and>
        (typeof (fieldOf err ''transactionCode'') = ''string'' \<or> endorsementsWellTyped err))"
  shows "getRetryAction err = Inr RetryAction_None"
proof -
  consider (code) "carriesDuplicateCode err"
    | (detail) "typeof (fieldOf err ''transactionCode'') \<noteq> ''string''"
        "endorsementsWellTyped err" "carriesDuplicateDetail err"
    | (contract) "instanceof err ''ContractError''"
        "typeof (fieldOf err ''transactionCode'') = ''string'' \<or> endorsementsWellTyped err"
    using assms by blast
  then show ?thesis
  proof cases
    case code
    then have "typeof (fieldOf err ''transactionCode'') = ''string''"
      by (simp add: carriesDuplicateCode_def)
    then have "isDuplicateTransactionError err = Inr True"
      using code by (simp add: isDuplicate_code)
    then show ?thesis by (simp add: getRetryAction_eval)
  next
    case detail
    then have "isDuplicateTransactionError err = Inr True"
      by (simp add: isDuplicate_scan)
    then show ?thesis by (simp add: getRetryAction_eval)
  next
    case contract
    from contract(2) obtain d where "isDuplicateTransactionError err = Inr d"
      using isDuplicate_returns by blast
    then show ?thesis using contract(1) by (simp add: getRetryAction_eval)
  qed
qed

theorem getRetryAction_duplicate_or_contract_witness:
  "carriesDuplicateCode
     (JObj [''TransactionError'', ''FabricError'', ''Error'', ''Object'']
        [(''name'', JStr ''TransactionError''), (''message'', JStr ''commit failed''),
         (''transactionCode'', JStr ''DUPLICATE_TXID'')]) \<and>
   getRetryAction
     (JObj [''TransactionError'', ''FabricError'', ''Error'', ''Object'']
        [(''name'', JStr ''TransactionError''), (''message'', JStr ''commit failed''),
         (''transactionCode'', JStr ''DUPLICATE_TXID'')]) = Inr RetryAction_None \<and>
   carriesDuplicateDetail
     (JObj [''Error'', ''Object'']
        [(''name'', JStr ''Error''), (''message'', JStr ''endorsement failed''),
         (''errors'', JArr [JNull, JObj [''Object'']
            [(''endorsements'', JArr [JObj [''Object''] [],
               JObj [''Object'']
                 [(''details'', JStr ''duplicate transaction found in block 7'')]])]])]) \<and>
   getRetryAction
     (JObj [''Error'', ''Object'']
        [(''name'', JStr ''Error''), (''message'', JStr ''endorsement failed''),
         (''errors'', JArr [JNull, JObj [''Object'']
            [(''endorsements'', JArr [JObj [''Object''] [],
               JObj [''Object'']
                 [(''details'', JStr ''duplicate transaction found in block 7'')]])]])])
     = Inr RetryAction_None \<and>
   instanceof (SymptomNotFoundError_new ''asset a1 does not exist'' ''tx1'') ''ContractError'' \<and>
   getRetryAction (SymptomNotFoundError_new ''asset a1 does not exist'' ''tx1'')
     = Inr RetryAction_None"
proof -
  let ?c = "JObj [''TransactionError'', ''FabricError'', ''Error'', ''Object'']
        [(''name'', JStr ''TransactionError''), (''message'', JStr ''commit failed''),
         (''transactionCode'', JStr ''DUPLICATE_TXID'')]"
  let ?d = "JObj [''Error'', ''Object'']
        [(''name'', JStr ''Error''), (''message'', JStr ''endorsement failed''),
         (''errors'', JArr [JNull, JObj [''Object'']
            [(''endorsements'', JArr [JObj [''Object''] [],
               JObj [''Object'']
                 [(''details'', JStr ''duplicate transaction found in block 7'')]])]])]"
  let ?n = "SymptomNotFoundError_new ''asset a1 does not exist'' ''tx1''"
  have c: "carriesDuplicateCode ?c"
    by (simp add: carriesDuplicateCode_def)
  have d: "typeof (fieldOf ?d ''transactionCode'') \<noteq> ''string'' \<and>
        endorsementsWellTyped ?d \<and> carriesDuplicateDetail ?d"
    by (simp add: endorsementsWellTyped_def carriesDuplicateDetail_def detailIsDuplicate_def)
  have n: "instanceof ?n ''ContractError'' \<and> endorsementsWellTyped ?n"
    by (simp add: SymptomNotFoundError_new_def ContractError_new_def Error_new_def
        ContractError_chain_def endorsementsWellTyped_def)
  show ?thesis
    using c d n getRetryAction_duplicate_or_contract [of ?c]
      getRetryAction_duplicate_or_contract [of ?d]
      getRetryAction_duplicate_or_contract [of ?n]
    by blast
qed

subsection \<open>C3\<close>

text \<open>
  C3: for every timeout error that the duplicate check answers with false and that is
  not a \<^verbatim>\<open>ContractError\<close>, \<^verbatim>\<open>getRetryAction\<close> returns \<open>WithExistingTransactionId\<close>.
\<close>

theorem getRetryAction_timeout:
  assumes "instanceof err ''TimeoutError''"
    and "isDuplicateTransactionError err = Inr False"
    and "\<not> instanceof err ''ContractError''"
  shows "getRetryAction err = Inr WithExistingTransactionId"
  using assms by (simp add: getRetryAction_eval)

theorem getRetryAction_timeout_witness:
  "getRetryAction
     (JObj [''TimeoutError'', ''FabricError'', ''Error'', ''Object'']
        [(''name'', JStr ''TimeoutError''), (''message'', JStr ''Event strategy not satisfied within the timeout period'')])
   = Inr WithExistingTransactionId"
proof -
  let ?e = "JObj [''TimeoutError'', ''FabricError'', ''Error'', ''Object'']
        [(''name'', JStr ''TimeoutError''), (''message'', JStr ''Event strategy not satisfied within the timeout period'')]"
  have 1: "instanceof ?e ''TimeoutError''" by simp
  have 2: "isDuplicateTransactionError ?e = Inr False"
    by (simp add: isDuplicateTransactionError_def optProp_def)
  have 3: "\<not> instanceof ?e ''ContractError''" by simp
  show ?thesis by (rule getRetryAction_timeout [OF 1 2 3])
qed

subsection \<open>C4\<close>

text \<open>
  C4: for every error that the duplicate check answers with false and that is neither
  a \<^verbatim>\<open>ContractError\<close> nor a timeout error, \<^verbatim>\<open>getRetryAction\<close> returns
  \<open>WithNewTransactionId\<close>.
\<close>

theorem getRetryAction_other:
  assumes "isDuplicateTransactionError err = Inr False"
    and "\<not> instanceof err ''ContractError''"
    and "\<not> instanceof err ''TimeoutError''"
  shows "getRetryAction err = Inr WithNewTransactionId"
  using assms by (simp add: getRetryAction_eval)

theorem getRetryAction_other_witness:
  "getRetryAction (Error_new ''14 UNAVAILABLE: failed to connect to all addresses'')
   = Inr WithNewTransactionId"
proof -
  let ?e = "Error_new ''14 UNAVAILABLE: failed to connect to all addresses''"
  have 1: "isDuplicateTransactionError ?e = Inr False"
    by (simp add: isDuplicateTransactionError_def optProp_def Error_new_def)
  have 2: "\<not> instanceof ?e ''ContractError''" by (simp add: Error_new_def)
  have 3: "\<not> instanceof ?e ''TimeoutError''" by (simp add: Error_new_def)
  show ?thesis by (rule getRetryAction_other [OF 1 2 3])
qed

subsection \<open>C5\<close>

text \<open>
  C5: on an error-like input, \<^verbatim>\<open>handleError\<close> tries already-exists, then does-not-exist,
  then transaction-not-found. A match of already-exists decides the result whatever
  the other two patterns would say; does-not-exist decides only when already-exists
  did not match; transaction-not-found only when neither did.
\<close>

theorem handleError_priority:
  assumes "isErrorLike err = Inr True" and "fieldOf err ''message'' = JStr message"
  shows "(\<forall>m. matchSymptomAlreadyExistsMessage message = Some m \<longrightarrow>
            handleError transactionId err = Inr (SymptomExistsError_new m transactionId)) \<and>
         (\<forall>m. matchSymptomAlreadyExistsMessage message = None \<and>
              matchSymptomDoesNotExistMessage message = Some m \<longrightarrow>
            handleError transactionId err = Inr (SymptomNotFoundError_new m transactionId)) \<and>
         (\<forall>m. matchSymptomAlreadyExistsMessage message = None \<and>
              matchSymptomDoesNotExistMessage message = None \<and>
              matchTransactionDoesNotExistMessage message = Some m \<longrightarrow>
            handleError transactionId err =
              Inr (TransactionNotFoundError_new m transactionId))"
  by (simp add: handleError_eval [OF assms])

theorem handleError_priority_witness:
  "matchSymptomDoesNotExistMessage
     ''asset a1 does not exist; the asset a2 already exists; Failed to get transaction with id 7, error Entry not found in index''
     = Some ''asset a1 does not exist'' \<and>
   matchTransactionDoesNotExistMessage
     ''asset a1 does not exist; the asset a2 already exists; Failed to get transaction with id 7, error Entry not found in index''
     = Some ''Failed to get transaction with id 7, error Entry not found in index'' \<and>
   handleError ''tx1''
     (Error_new ''asset a1 does not exist; the asset a2 already exists; Failed to get transaction with id 7, error Entry not found in index'')
     = Inr (SymptomExistsError_new ''the asset a2 already exists'' ''tx1'')"
  using all_three_match
    handleError_priority [OF isErrorLike_Error_new message_Error_new,
      of "''asset a1 does not exist; the asset a2 already exists; Failed to get transaction with id 7, error Entry not found in index''" "''tx1''"]
  by blast

subsection \<open>C6\<close>

text \<open>
  C6 as stated: an error-like input whose message matches none of the patterns is
  still mapped to a kind, not passed through. \<^verbatim>\<open>handleError\<close> returns that input as it
  is.
\<close>

theorem C6_counterexample:
  "isErrorLike (Error_new ''14 UNAVAILABLE: failed to connect to all addresses'') = Inr True \<and>
   matchSymptomAlreadyExistsMessage ''14 UNAVAILABLE: failed to connect to all addresses'' = None \<and>
   matchSymptomDoesNotExistMessage ''14 UNAVAILABLE: failed to connect to all addresses'' = None \<and>
   matchTransactionDoesNotExistMessage ''14 UNAVAILABLE: failed to connect to all addresses'' = None \<and>
   handleError ''tx1'' (Error_new ''14 UNAVAILABLE: failed to connect to all addresses'')
     = Inr (Error_new ''14 UNAVAILABLE: failed to connect to all addresses'')"
  by (simp add: no_match_unavailable
      handleError_eval [OF isErrorLike_Error_new message_Error_new] isErrorLike_Error_new)

text \<open>
  C6, amended: \<^verbatim>\<open>handleError\<close> classifies the three business-error patterns only. An
  input that is not error-like, and an error-like input whose message matches none of
  the three patterns, is returned unchanged: the raw error is the result.
\<close>

theorem handleError_returns_raw:
  assumes "isErrorLike err = Inr False \<or>
     (isErrorLike err = Inr True \<and> fieldOf err ''message'' = JStr message \<and>
      matchSymptomAlreadyExistsMessage message = None \<and>
      matchSymptomDoesNotExistMessage message = None \<and>
      matchTransactionDoesNotExistMessage message = None)"
  shows "handleError transactionId err = Inr err"
  using assms
proof
  assume "isErrorLike err = Inr False"
  then show ?thesis by (rule handleError_not_errorLike)
next
  assume a: "isErrorLike err = Inr True \<and> fieldOf err ''message'' = JStr message \<and>
      matchSymptomAlreadyExistsMessage message = None \<and>
      matchSymptomDoesNotExistMessage message = None \<and>
      matchTransactionDoesNotExistMessage message = None"
  then have "isErrorLike err = Inr True" and "fieldOf err ''message'' = JStr message"
    by simp_all
  from handleError_eval [OF this] a show ?thesis by simp
qed

theorem handleError_returns_raw_witness:
  "handleError ''tx1'' (Error_new ''14 UNAVAILABLE: failed to connect to all addresses'')
     = Inr (Error_new ''14 UNAVAILABLE: failed to connect to all addresses'') \<and>
   isErrorLike (JStr ''boom'') = Inr False \<and>
   handleError ''tx1'' (JStr ''boom'') = Inr (JStr ''boom'')"
proof -
  have 1: "isErrorLike (Error_new ''14 UNAVAILABLE: failed to connect to all addresses'')
        = Inr True \<and>
      fieldOf (Error_new ''14 UNAVAILABLE: failed to connect to all addresses'') ''message''
        = JStr ''14 UNAVAILABLE: failed to connect to all addresses'' \<and>
      matchSymptomAlreadyExistsMessage ''14 UNAVAILABLE: failed to connect to all addresses''
        = None \<and>
      matchSymptomDoesNotExistMessage ''14 UNAVAILABLE: failed to connect to all addresses''
        = None \<and>
      matchTransactionDoesNotExistMessage ''14 UNAVAILABLE: failed to connect to all addresses''
        = None"
    by (simp add: isErrorLike_Error_new message_Error_new no_match_unavailable)
  have 2: "isErrorLike (JStr ''boom'') = Inr False"
    by (simp add: isErrorLike_def)
  show ?thesis
    using 2 handleError_returns_raw [OF disjI2, OF 1, of "''tx1''"]
      handleError_returns_raw [OF disjI1, OF 2, of "''tx1''"]
    by simp
qed

subsection \<open>C7\<close>

text \<open>
  C7 as stated: \<^verbatim>\<open>getRetryAction\<close> returns one of the three actions on every input and
  never throws. On an object whose \<^verbatim>\<open>errors\<close> is the number 5, \<^verbatim>\<open>errors?.some\<close> is not a
  function and the call throws a TypeError.
\<close>

theorem C7_counterexample:
  "getRetryAction (JObj [''Object''] [(''errors'', JNum 5)]) = Inl TypeError"
  by (simp add: getRetryAction_def isDuplicateTransactionError_def optProp_def)

text \<open>
  C7, amended: \<^verbatim>\<open>handleError\<close> returns a result on every input and never throws.
  \<^verbatim>\<open>getRetryAction\<close> returns one of \<open>None\<close>, \<open>WithExistingTransactionId\<close> and
  \<open>WithNewTransactionId\<close> on every input whose \<^verbatim>\<open>transactionCode\<close> is a string or whose
  \<^verbatim>\<open>errors\<close>, \<^verbatim>\<open>endorsements\<close> and \<^verbatim>\<open>details\<close>, where present and not null, are an array,
  arrays and strings; undefined, null, primitives and objects without these fields
  are among them.
\<close>

theorem handleError_getRetryAction_return:
  "(\<exists>r. handleError transactionId err = Inr r) \<and>
   (typeof (fieldOf err ''transactionCode'') = ''string'' \<or> endorsementsWellTyped err \<longrightarrow>
      getRetryAction err = Inr RetryAction_None \<or>
      getRetryAction err = Inr WithExistingTransactionId \<or>
      getRetryAction err = Inr WithNewTransactionId)"
proof (intro conjI impI)
  show "\<exists>r. handleError transactionId err = Inr r" by (rule handleError_total)
next
  assume "typeof (fieldOf err ''transactionCode'') = ''string'' \<or> endorsementsWellTyped err"
  then obtain d where "isDuplicateTransactionError err = Inr d"
    using isDuplicate_returns by blast
  then show "getRetryAction err = Inr RetryAction_None \<or>
      getRetryAction err = Inr WithExistingTransactionId \<or>
      getRetryAction err = Inr WithNewTransactionId"
    by (simp add: getRetryAction_eval)
qed

theorem handleError_getRetryAction_return_witness:
  "handleError ''tx1'' JNull = Inr JNull \<and>
   getRetryAction JNull = Inr WithNewTransactionId \<and>
   getRetryAction JUndefined = Inr WithNewTransactionId \<and>
   getRetryAction (JStr ''boom'') = Inr WithNewTransactionId \<and>
   getRetryAction (JObj [''Object''] []) = Inr WithNewTransactionId"
proof -
  have w: "endorsementsWellTyped JNull" "endorsementsWellTyped JUndefined"
    "endorsementsWellTyped (JStr ''boom'')" "endorsementsWellTyped (JObj [''Object''] [])"
    by (simp_all add: endorsementsWellTyped_def)
  have n: "getRetryAction JNull \<noteq> Inr RetryAction_None"
    "getRetryAction JNull \<noteq> Inr WithExistingTransactionId"
    "getRetryAction JUndefined \<noteq> Inr RetryAction_None"
    "getRetryAction JUndefined \<noteq> Inr WithExistingTransactionId"
    "getRetryAction (JStr ''boom'') \<noteq> Inr RetryAction_None"
    "getRetryAction (JStr ''boom'') \<noteq> Inr WithExistingTransactionId"
    "getRetryAction (JObj [''Object''] []) \<noteq> Inr RetryAction_None"
    "getRetryAction (JObj [''Object''] []) \<noteq> Inr WithExistingTransactionId"
    by (simp_all add: getRetryAction_def isDuplicateTransactionError_def optProp_def)
  have h: "handleError ''tx1'' JNull = Inr JNull"
    by (simp add: handleError_def isErrorLike_def)
  show ?thesis
    using w n h handleError_getRetryAction_return [of "''tx1''" JNull]
      handleError_getRetryAction_return [of "''tx1''" JUndefined]
      handleError_getRetryAction_return [of "''tx1''" "JStr ''boom''"]
      handleError_getRetryAction_return [of "''tx1''" "JObj [''Object''] []"]
    by blast
qed

subsection \<open>C8\<close>

text \<open>
  C8: on the message \<^verbatim>\<open>the asset symptom1 already exists\<close> the classifier returns a
  \<^verbatim>\<open>SymptomExistsError\<close> with that message, the retry policy answers it with \<open>None\<close>,
  and a job in its first attempt of at most five ends \<open>Failed\<close> with that error, its
  attempt count still 1 and its transaction identities unchanged.
\<close>

theorem already_exists_scenario:
  "handleError transactionId (Error_new ''the asset symptom1 already exists'')
     = Inr (SymptomExistsError_new ''the asset symptom1 already exists'' transactionId) \<and>
   instanceof (SymptomExistsError_new ''the asset symptom1 already exists'' transactionId)
     ''SymptomExistsError'' \<and>
   getRetryAction (SymptomExistsError_new ''the asset symptom1 already exists'' transactionId)
     = Inr RetryAction_None \<and>
   attemptCount (dequeue transactionId enqueue) = 1 \<and>
   onSubmitFailure 5 transactionId newIdentity (Error_new ''the asset symptom1 already exists'')
       (dequeue transactionId enqueue)
     = Inr \<lparr>transactionIds = [transactionId], state = Failed, result = None,
            error = Some (Classified
              (SymptomExistsError_new ''the asset symptom1 already exists'' transactionId)),
            attemptCount = 1\<rparr>"
proof -
  have h: "handleError transactionId (Error_new ''the asset symptom1 already exists'')
     = Inr (SymptomExistsError_new ''the asset symptom1 already exists'' transactionId)"
    by (simp add: handleError_eval [OF isErrorLike_Error_new message_Error_new] match_symptom1)
  have i: "instanceof (SymptomExistsError_new ''the asset symptom1 already exists'' transactionId)
     ''SymptomExistsError''"
    by (simp add: SymptomExistsError_new_def ContractError_new_def Error_new_def)
  have a: "attemptCount (dequeue transactionId enqueue) = 1"
    by (simp add: dequeue_def enqueue_def)
  have w: "onSubmitFailure 5 transactionId newIdentity
       (Error_new ''the asset symptom1 already exists'') (dequeue transactionId enqueue)
     = Inr \<lparr>transactionIds = [transactionId], state = Failed, result = None,
            error = Some (Classified
              (SymptomExistsError_new ''the asset symptom1 already exists'' transactionId)),
            attemptCount = 1\<rparr>"
    by (simp add: onSubmitFailure_def dequeue_def enqueue_def h
        getRetryAction_SymptomExistsError)
  show ?thesis using h i a w getRetryAction_SymptomExistsError by blast
qed

theorem already_exists_scenario_witness:
  "onSubmitFailure 5 ''tx1'' ''tx2'' (Error_new ''the asset symptom1 already exists'')
       (dequeue ''tx1'' enqueue)
     = Inr \<lparr>transactionIds = [''tx1''], state = Failed, result = None,
            error = Some (Classified
              (SymptomExistsError_new ''the asset symptom1 already exists'' ''tx1'')),
            attemptCount = 1\<rparr>"
  using already_exists_scenario [of "''tx1''" "''tx2''"] by blast

subsection \<open>C9\<close>




subsection \<open>C10\<close>

text \<open>
  C10: \<^verbatim>\<open>CreateSymptom\<close> makes no existence check. In every world state and for every
  id it returns normally; afterwards the id holds the serialisation of the object with
  the fields \<^verbatim>\<open>ID\<close>, \<^verbatim>\<open>Comment\<close>, \<^verbatim>\<open>Owner\<close> and \<^verbatim>\<open>SymptomTimestamp\<close> set to the arguments,
  whether or not the id held a value before, and every other key holds what it held.
\<close>

theorem CreateSymptom_overwrites:
  "\<exists>st'. CreateSymptom JSON_stringify st id' comment owner symptomTimestamp = Inr st' \<and>
     st' id' =
       Some (JSON_stringify
         (JObj [''Object'']
            [(''ID'', JStr id'), (''Comment'', JStr comment), (''Owner'', JStr owner),
             (''SymptomTimestamp'', JNum symptomTimestamp)])) \<and>
     (\<forall>key. key \<noteq> id' \<longrightarrow> st' key = st key)"
  by (simp add: CreateSymptom_def putState_def Symptom_object_def)

theorem CreateSymptom_overwrites_witness:
  "SymptomExists
     [''symptom1'' \<mapsto> ''ID=symptom1;Comment=Heart ache;Owner=Brad;SymptomTimestamp=1;'',
      ''symptom2'' \<mapsto> ''ID=symptom2;Comment=Cough;Owner=Ann;SymptomTimestamp=2;'']
     ''symptom1'' \<and>
   (\<exists>st'. CreateSymptom fieldsText
             [''symptom1'' \<mapsto> ''ID=symptom1;Comment=Heart ache;Owner=Brad;SymptomTimestamp=1;'',
              ''symptom2'' \<mapsto> ''ID=symptom2;Comment=Cough;Owner=Ann;SymptomTimestamp=2;'']
             ''symptom1'' ''Stomach pain'' ''Carol'' 1700000000000 = Inr st' \<and>
          st' ''symptom1'' =
            Some ''ID=symptom1;Comment=Stomach pain;Owner=Carol;SymptomTimestamp=1700000000000;'' \<and>
          st' ''symptom2'' = Some ''ID=symptom2;Comment=Cough;Owner=Ann;SymptomTimestamp=2;'')"
proof -
  define st where "st =
     [''symptom1'' \<mapsto> ''ID=symptom1;Comment=Heart ache;Owner=Brad;SymptomTimestamp=1;'',
      ''symptom2'' \<mapsto> ''ID=symptom2;Comment=Cough;Owner=Ann;SymptomTimestamp=2;'']"
  have e: "SymptomExists st ''symptom1''"
    by (simp add: st_def SymptomExists_def getState_def)
  have k: "''symptom2'' \<noteq> ''symptom1''" by simp
  have o: "st ''symptom2'' = Some ''ID=symptom2;Comment=Cough;Owner=Ann;SymptomTimestamp=2;''"
    by (simp add: st_def)
  have t: "fieldsText
         (JObj [''Object'']
            [(''ID'', JStr ''symptom1''), (''Comment'', JStr ''Stomach pain''),
             (''Owner'', JStr ''Carol''), (''SymptomTimestamp'', JNum 1700000000000)])
       = ''ID=symptom1;Comment=Stomach pain;Owner=Carol;SymptomTimestamp=1700000000000;''"
    by (simp add: digitsOf_timestamp)
  obtain st' where s: "CreateSymptom fieldsText st ''symptom1'' ''Stomach pain'' ''Carol''
        1700000000000 = Inr st'"
      and n: "st' ''symptom1'' = Some (fieldsText
         (JObj [''Object'']
            [(''ID'', JStr ''symptom1''), (''Comment'', JStr ''Stomach pain''),
             (''Owner'', JStr ''Carol''), (''SymptomTimestamp'', JNum 1700000000000)]))"
      and u: "\<forall>key. key \<noteq> ''symptom1'' \<longrightarrow> st' key = st key"
    using CreateSymptom_overwrites [of fieldsText st "''symptom1''" "''Stomach pain''"
      "''Carol''" 1700000000000]
    by (elim exE conjE)
  note o' = trans [OF u [rule_format, OF k] o]
  note n' = trans [OF n arg_cong [of _ _ Some, OF t]]
  have "\<exists>st'. CreateSymptom fieldsText st ''symptom1'' ''Stomach pain'' ''Carol''
          1700000000000 = Inr st' \<and>
        st' ''symptom1'' =
          Some ''ID=symptom1;Comment=Stomach pain;Owner=Carol;SymptomTimestamp=1700000000000;'' \<and>
        st' ''symptom2'' = Some ''ID=symptom2;Comment=Cough;Owner=Ann;SymptomTimestamp=2;''"
    by (rule exI [of _ st'], intro conjI) (rule s n' o')+
  with e show ?thesis unfolding st_def by (rule conjI)
qed

end
